theory Spec2Isabelle
  imports Main
begin

section \<open>Domain types\<close>

text \<open>
  The shapes of \<^verbatim>\<open>types/stock\<close> (src/unnamed/part_002). A TypeScript \<^verbatim>\<open>number\<close> that
  holds a quantity, a price or a count is an \<open>int\<close>; an optional field is an \<open>option\<close>.
  Time stamps are ISO strings in the source; the model keeps the instant each one denotes,
  in milliseconds, and the clock that \<^verbatim>\<open>new Date()\<close> reads is an explicit argument.
  The field \<^verbatim>\<open>id\<close> of each shape is prefixed with its owner, and \<^verbatim>\<open>type\<close> of a movement
  is \<open>mv_type\<close>, \<^verbatim>\<open>notes\<close> is \<open>mv_notes\<close>.
\<close>

type_synonym timestamp = int

record Product =
  pr_id :: string
  name :: string
  sku :: string
  description :: "string option"
  category_id :: string
  supplier_id :: string
  current_stock :: int
  min_stock :: int
  max_stock :: "int option"
  unit_price :: int
  barcode :: "string option"
  location :: "string option"
  created_at :: timestamp
  updated_at :: timestamp

record StockMovement =
  mv_id :: string
  product_id :: string
  mv_type :: string
  quantity :: int
  reason :: string
  reference :: "string option"
  mv_notes :: "string option"
  mv_created_at :: timestamp
  created_by :: "string option"

record Category =
  cat_id :: string
  cat_name :: string
  cat_description :: "string option"
  cat_created_at :: "timestamp option"

record Supplier =
  sup_id :: string
  sup_name :: string
  email :: string
  phone :: string
  address :: string
  sup_created_at :: "timestamp option"

record StockStats =
  totalProducts :: nat
  totalValue :: int
  lowStockItems :: nat
  outOfStockItems :: nat
  recentMovements :: nat

datatype StockLevel = High | Medium | Low | Out

record StockFilter =
  category :: "string option"
  supplier :: "string option"
  stockLevel :: "StockLevel option"
  searchTerm :: "string option"

record StockState =
  products :: "Product list"
  movements :: "StockMovement list"
  categories :: "Category list"
  suppliers :: "Supplier list"
  stats :: StockStats
  sfilter :: StockFilter
  loading :: bool

text \<open>
  The thirteen tagged actions of \<^verbatim>\<open>StockAction\<close>. The union is closed in TypeScript, yet the
  reducers end in a \<^verbatim>\<open>default\<close> branch for whatever else is dispatched at run time:
  \<open>UNRECOGNIZED t\<close> stands for a dispatched object whose tag \<open>t\<close> matches no case label.
\<close>

datatype StockAction =
    SET_PRODUCTS "Product list"
  | SET_CATEGORIES "Category list"
  | SET_SUPPLIERS "Supplier list"
  | SET_MOVEMENTS "StockMovement list"
  | ADD_PRODUCT Product
  | UPDATE_PRODUCT Product
  | DELETE_PRODUCT string
  | ADD_MOVEMENT StockMovement
  | ADD_CATEGORY Category
  | ADD_SUPPLIER Supplier
  | SET_FILTER StockFilter
  | SET_LOADING bool
  | CALCULATE_STATS
  | UNRECOGNIZED string

fun action_type :: "StockAction \<Rightarrow> string" where
  "action_type (SET_PRODUCTS _) = ''SET_PRODUCTS''"
| "action_type (SET_CATEGORIES _) = ''SET_CATEGORIES''"
| "action_type (SET_SUPPLIERS _) = ''SET_SUPPLIERS''"
| "action_type (SET_MOVEMENTS _) = ''SET_MOVEMENTS''"
| "action_type (ADD_PRODUCT _) = ''ADD_PRODUCT''"
| "action_type (UPDATE_PRODUCT _) = ''UPDATE_PRODUCT''"
| "action_type (DELETE_PRODUCT _) = ''DELETE_PRODUCT''"
| "action_type (ADD_MOVEMENT _) = ''ADD_MOVEMENT''"
| "action_type (ADD_CATEGORY _) = ''ADD_CATEGORY''"
| "action_type (ADD_SUPPLIER _) = ''ADD_SUPPLIER''"
| "action_type (SET_FILTER _) = ''SET_FILTER''"
| "action_type (SET_LOADING _) = ''SET_LOADING''"
| "action_type CALCULATE_STATS = ''CALCULATE_STATS''"
| "action_type (UNRECOGNIZED t) = t"

definition handled_types :: "string list" where
  "handled_types =
     [''SET_PRODUCTS'', ''SET_CATEGORIES'', ''SET_SUPPLIERS'', ''SET_MOVEMENTS'',
      ''ADD_PRODUCT'', ''UPDATE_PRODUCT'', ''DELETE_PRODUCT'', ''ADD_MOVEMENT'',
      ''ADD_CATEGORY'', ''ADD_SUPPLIER'', ''SET_FILTER'', ''SET_LOADING'',
      ''CALCULATE_STATS'']"

text \<open>
  The sources hold three variants of the stock store: the one of
  src/attached_assets/project/src/contexts/StockContext.tsx (names without a suffix), and the
  two of src/unnamed/part_003, the first at lines 1-198 (suffix \<open>_v1\<close>), the second at
  lines 198-570 (suffix \<open>_v2\<close>, where its text differs from the other two).
\<close>

text \<open>\<^verbatim>\<open>initialState\<close> of StockContext.tsx (lines 60-74).\<close>

definition initialState :: StockState where
  "initialState =
     \<lparr>products = [], movements = [], categories = [], suppliers = [],
      stats = \<lparr>totalProducts = 0, totalValue = 0, lowStockItems = 0,
               outOfStockItems = 0, recentMovements = 0\<rparr>,
      sfilter = \<lparr>category = None, supplier = None, stockLevel = None, searchTerm = None\<rparr>,
      loading = True\<rparr>"

section \<open>Stats calculator\<close>

text \<open>
  \<^verbatim>\<open>setDate(getDate() - 7)\<close> steps back seven calendar days; the model takes them as
  seven times 24 hours before the clock value \<open>now\<close>.
\<close>

definition sevenDaysAgo :: "timestamp \<Rightarrow> timestamp" where
  "sevenDaysAgo now = now - 7 * 86400000"

text \<open>\<^verbatim>\<open>calculateStats\<close> of src/attached_assets/project/src/contexts/StockContext.tsx (lines 76-95).\<close>

definition calculateStats :: "timestamp \<Rightarrow> Product list \<Rightarrow> StockMovement list \<Rightarrow> StockStats" where
  "calculateStats now ps ms =
     \<lparr>totalProducts = length ps,
      totalValue = foldl (\<lambda>sum product. sum + current_stock product * unit_price product) 0 ps,
      lowStockItems = length (filter (\<lambda>p. current_stock p \<le> min_stock p \<and> current_stock p > 0) ps),
      outOfStockItems = length (filter (\<lambda>p. current_stock p = 0) ps),
      recentMovements = length (filter (\<lambda>m. mv_created_at m \<ge> sevenDaysAgo now) ms)\<rparr>"

text \<open>\<^verbatim>\<open>calculateStats\<close> of the first store of src/unnamed/part_003 (lines 85-104).\<close>

definition calculateStats_v1 :: "timestamp \<Rightarrow> Product list \<Rightarrow> StockMovement list \<Rightarrow> StockStats" where
  "calculateStats_v1 now ps ms =
     \<lparr>totalProducts = length ps,
      totalValue = foldl (\<lambda>sum p. sum + current_stock p * unit_price p) 0 ps,
      lowStockItems = length (filter (\<lambda>p. current_stock p \<le> min_stock p) ps),
      outOfStockItems = length (filter (\<lambda>p. current_stock p = 0) ps),
      recentMovements = length (filter (\<lambda>m. mv_created_at m \<ge> sevenDaysAgo now) ms)\<rparr>"

section \<open>Stock reducers\<close>

text \<open>\<^verbatim>\<open>stockReducer\<close> of src/attached_assets/project/src/contexts/StockContext.tsx (lines 97-167).\<close>

fun stockReducer :: "timestamp \<Rightarrow> StockState \<Rightarrow> StockAction \<Rightarrow> StockState" where
  "stockReducer now state (SET_PRODUCTS payload) = state\<lparr>products := payload\<rparr>"
| "stockReducer now state (SET_MOVEMENTS payload) = state\<lparr>movements := payload\<rparr>"
| "stockReducer now state (SET_CATEGORIES payload) = state\<lparr>categories := payload\<rparr>"
| "stockReducer now state (SET_SUPPLIERS payload) = state\<lparr>suppliers := payload\<rparr>"
| "stockReducer now state (ADD_PRODUCT payload) = state\<lparr>products := products state @ [payload]\<rparr>"
| "stockReducer now state (UPDATE_PRODUCT payload) =
     state\<lparr>products := map (\<lambda>p. if pr_id p = pr_id payload then payload else p) (products state)\<rparr>"
| "stockReducer now state (DELETE_PRODUCT payload) =
     state\<lparr>products := filter (\<lambda>p. pr_id p \<noteq> payload) (products state)\<rparr>"
| "stockReducer now state (ADD_MOVEMENT payload) = state\<lparr>movements := payload # movements state\<rparr>"
| "stockReducer now state (ADD_CATEGORY payload) = state\<lparr>categories := categories state @ [payload]\<rparr>"
| "stockReducer now state (ADD_SUPPLIER payload) = state\<lparr>suppliers := suppliers state @ [payload]\<rparr>"
| "stockReducer now state (SET_FILTER payload) = state\<lparr>sfilter := payload\<rparr>"
| "stockReducer now state (SET_LOADING payload) = state\<lparr>loading := payload\<rparr>"
| "stockReducer now state CALCULATE_STATS =
     state\<lparr>stats := calculateStats now (products state) (movements state)\<rparr>"
| "stockReducer now state (UNRECOGNIZED t) = state"

text \<open>\<^verbatim>\<open>stockReducer\<close> of the first store of src/unnamed/part_003 (lines 45-83).\<close>

fun stockReducer_v1 :: "timestamp \<Rightarrow> StockState \<Rightarrow> StockAction \<Rightarrow> StockState" where
  "stockReducer_v1 now state (SET_PRODUCTS payload) = state\<lparr>products := payload\<rparr>"
| "stockReducer_v1 now state (SET_CATEGORIES payload) = state\<lparr>categories := payload\<rparr>"
| "stockReducer_v1 now state (SET_SUPPLIERS payload) = state\<lparr>suppliers := payload\<rparr>"
| "stockReducer_v1 now state (SET_MOVEMENTS payload) = state\<lparr>movements := payload\<rparr>"
| "stockReducer_v1 now state (ADD_PRODUCT payload) = state\<lparr>products := products state @ [payload]\<rparr>"
| "stockReducer_v1 now state (UPDATE_PRODUCT payload) =
     state\<lparr>products := map (\<lambda>p. if pr_id p = pr_id payload then payload else p) (products state)\<rparr>"
| "stockReducer_v1 now state (DELETE_PRODUCT payload) =
     state\<lparr>products := filter (\<lambda>p. pr_id p \<noteq> payload) (products state)\<rparr>"
| "stockReducer_v1 now state (ADD_MOVEMENT payload) = state\<lparr>movements := payload # movements state\<rparr>"
| "stockReducer_v1 now state (ADD_CATEGORY payload) = state\<lparr>categories := categories state @ [payload]\<rparr>"
| "stockReducer_v1 now state (ADD_SUPPLIER payload) = state\<lparr>suppliers := suppliers state @ [payload]\<rparr>"
| "stockReducer_v1 now state (SET_FILTER payload) = state\<lparr>sfilter := payload\<rparr>"
| "stockReducer_v1 now state (SET_LOADING payload) = state\<lparr>loading := payload\<rparr>"
| "stockReducer_v1 now state CALCULATE_STATS =
     (let stats' = calculateStats_v1 now (products state) (movements state)
      in state\<lparr>stats := stats'\<rparr>)"
| "stockReducer_v1 now state (UNRECOGNIZED t) = state"

text \<open>
  \<^verbatim>\<open>stockReducer\<close> of the second store of src/unnamed/part_003 (lines 264-338). Its
  \<^verbatim>\<open>calculateStats\<close> (lines 243-262) reads the fields \<^verbatim>\<open>currentStock\<close>, \<^verbatim>\<open>unitPrice\<close> and
  \<^verbatim>\<open>minStock\<close>, which \<^verbatim>\<open>Product\<close> does not declare, so the calculator is an argument
  \<open>calc\<close> of this reducer; no other branch uses it.
\<close>

definition applyMovement :: "timestamp \<Rightarrow> StockMovement \<Rightarrow> Product \<Rightarrow> Product" where
  "applyMovement now payload product =
     (if pr_id product = product_id payload then
        (let newStock = (if mv_type payload = ''in''
                         then current_stock product + quantity payload
                         else max 0 (current_stock product - quantity payload))
         in product\<lparr>current_stock := newStock, updated_at := now\<rparr>)
      else product)"

fun stockReducer_v2 ::
  "(Product list \<Rightarrow> StockMovement list \<Rightarrow> StockStats) \<Rightarrow> timestamp \<Rightarrow> StockState \<Rightarrow> StockAction
    \<Rightarrow> StockState" where
  "stockReducer_v2 calc now state (SET_PRODUCTS payload) = state\<lparr>products := payload\<rparr>"
| "stockReducer_v2 calc now state (SET_CATEGORIES payload) = state\<lparr>categories := payload\<rparr>"
| "stockReducer_v2 calc now state (SET_SUPPLIERS payload) = state\<lparr>suppliers := payload\<rparr>"
| "stockReducer_v2 calc now state (SET_MOVEMENTS payload) = state\<lparr>movements := payload\<rparr>"
| "stockReducer_v2 calc now state (ADD_PRODUCT payload) =
     state\<lparr>products := products state @ [payload]\<rparr>"
| "stockReducer_v2 calc now state (UPDATE_PRODUCT payload) =
     state\<lparr>products := map (\<lambda>p. if pr_id p = pr_id payload then payload else p) (products state)\<rparr>"
| "stockReducer_v2 calc now state (DELETE_PRODUCT payload) =
     state\<lparr>products := filter (\<lambda>p. pr_id p \<noteq> payload) (products state)\<rparr>"
| "stockReducer_v2 calc now state (ADD_MOVEMENT payload) =
     (let updatedProducts = map (applyMovement now payload) (products state)
      in state\<lparr>products := updatedProducts, movements := payload # movements state\<rparr>)"
| "stockReducer_v2 calc now state (ADD_CATEGORY payload) =
     state\<lparr>categories := categories state @ [payload]\<rparr>"
| "stockReducer_v2 calc now state (ADD_SUPPLIER payload) =
     state\<lparr>suppliers := suppliers state @ [payload]\<rparr>"
| "stockReducer_v2 calc now state (SET_FILTER payload) = state\<lparr>sfilter := payload\<rparr>"
| "stockReducer_v2 calc now state (SET_LOADING payload) = state\<lparr>loading := payload\<rparr>"
| "stockReducer_v2 calc now state CALCULATE_STATS =
     state\<lparr>stats := calc (products state) (movements state)\<rparr>"
| "stockReducer_v2 calc now state (UNRECOGNIZED t) = state"

section \<open>Stock store: derived views\<close>

text \<open>
  \<^verbatim>\<open>getStockLevel\<close> of src/attached_assets/project/src/contexts/StockContext.tsx
  (lines 418-423); the second store of src/unnamed/part_003 (lines 506-511) has the same text.
\<close>

definition getStockLevel :: "Product \<Rightarrow> StockLevel" where
  "getStockLevel product =
     (if current_stock product = 0 then Out
      else if current_stock product \<le> min_stock product then Low
      else if current_stock product \<le> min_stock product * 2 then Medium
      else High)"

text \<open>
  \<^verbatim>\<open>getStockLevel\<close> of the first store of src/unnamed/part_003 (lines 137-142).
  \<^verbatim>\<open>product.max_stock && ...\<close> is false for an absent and for a zero \<^verbatim>\<open>max_stock\<close>.
\<close>

definition getStockLevel_v1 :: "Product \<Rightarrow> StockLevel" where
  "getStockLevel_v1 product =
     (if current_stock product = 0 then Out
      else if current_stock product \<le> min_stock product then Low
      else if (case max_stock product of None \<Rightarrow> False
               | Some m \<Rightarrow> m \<noteq> 0 \<and> current_stock product \<ge> m) then High
      else Medium)"

text \<open>
  JavaScript strings. A \<open>string\<close> of the model is a list of 8-bit characters:
  \<^verbatim>\<open>toLowerCase\<close> is modelled on the ASCII letters, and \<^verbatim>\<open>includes\<close> (here \<open>includes_str\<close>) is the substring test.
  An optional string is truthy when it is present and not empty.
\<close>

definition toLowerChar :: "char \<Rightarrow> char" where
  "toLowerChar c =
     (let n = (of_char c :: nat) in if 65 \<le> n \<and> n \<le> 90 then char_of (n + 32) else c)"

definition toLowerCase :: "string \<Rightarrow> string" where
  "toLowerCase s = map toLowerChar s"

fun startsWith :: "string \<Rightarrow> string \<Rightarrow> bool" where
  "startsWith s [] = True"
| "startsWith [] (y # ys) = False"
| "startsWith (x # xs) (y # ys) = (x = y \<and> startsWith xs ys)"

fun includes_str :: "string \<Rightarrow> string \<Rightarrow> bool" where
  "includes_str [] sub = (sub = [])"
| "includes_str (c # cs) sub = (startsWith (c # cs) sub \<or> includes_str cs sub)"

definition truthy :: "string option \<Rightarrow> bool" where
  "truthy v = (case v of None \<Rightarrow> False | Some s \<Rightarrow> s \<noteq> [])"

text \<open>
  \<^verbatim>\<open>getFilteredProducts\<close> of src/attached_assets/project/src/contexts/StockContext.tsx
  (lines 425-450): four optional filters applied one after the other.
\<close>

definition getFilteredProducts :: "StockState \<Rightarrow> Product list" where
  "getFilteredProducts state =
     (let filtered = products state;
          filtered =
            (case searchTerm (sfilter state) of
               None \<Rightarrow> filtered
             | Some term \<Rightarrow>
                 if term = [] then filtered
                 else (let searchLower = toLowerCase term
                       in filter (\<lambda>product.
                            includes_str (toLowerCase (name product)) searchLower \<or>
                            includes_str (toLowerCase (sku product)) searchLower \<or>
                            (case description product of None \<Rightarrow> False
                             | Some d \<Rightarrow> includes_str (toLowerCase d) searchLower)) filtered));
          filtered =
            (case category (sfilter state) of
               None \<Rightarrow> filtered
             | Some c \<Rightarrow>
                 if c = [] then filtered
                 else filter (\<lambda>product. category_id product = c) filtered);
          filtered =
            (case supplier (sfilter state) of
               None \<Rightarrow> filtered
             | Some sp \<Rightarrow>
                 if sp = [] then filtered
                 else filter (\<lambda>product. supplier_id product = sp) filtered);
          filtered =
            (case stockLevel (sfilter state) of
               None \<Rightarrow> filtered
             | Some l \<Rightarrow> filter (\<lambda>product. getStockLevel product = l) filtered)
      in filtered)"

text \<open>
  \<^verbatim>\<open>getFilteredProducts\<close> of the first store of src/unnamed/part_003 (lines 144-158):
  one pass with the four tests joined by \<^verbatim>\<open>&&\<close>.
\<close>

definition getFilteredProducts_v1 :: "StockState \<Rightarrow> Product list" where
  "getFilteredProducts_v1 state =
     filter (\<lambda>product.
       (let matchesSearch =
              (case searchTerm (sfilter state) of
                 None \<Rightarrow> True
               | Some term \<Rightarrow> term = [] \<or>
                   includes_str (toLowerCase (name product)) (toLowerCase term) \<or>
                   includes_str (toLowerCase (sku product)) (toLowerCase term));
            matchesCategory =
              (case category (sfilter state) of
                 None \<Rightarrow> True | Some c \<Rightarrow> c = [] \<or> category_id product = c);
            matchesSupplier =
              (case supplier (sfilter state) of
                 None \<Rightarrow> True | Some sp \<Rightarrow> sp = [] \<or> supplier_id product = sp);
            stockLevel' = getStockLevel_v1 product;
            matchesStockLevel =
              (case stockLevel (sfilter state) of
                 None \<Rightarrow> True | Some l \<Rightarrow> stockLevel' = l)
        in matchesSearch \<and> matchesCategory \<and> matchesSupplier \<and> matchesStockLevel))
       (products state)"

section \<open>Export and import utilities\<close>

text \<open>
  src/client/src/utils/dataExport.ts works on \<^verbatim>\<open>any[]\<close>: each record is an object of
  primitive fields. An object is the list of its own properties in insertion order, with
  distinct keys (the order \<^verbatim>\<open>Object.keys\<close> gives for keys that are not array indices).
  Numbers are integers; nested objects and arrays are outside the model, and so are keys
  that name a member of \<^verbatim>\<open>Object.prototype\<close>, which a property read would find there.
\<close>

datatype jsval = JUndefined | JNull | JBool bool | JNum int | JStr string

type_synonym jsobject = "(string \<times> jsval) list"

definition getProp :: "jsobject \<Rightarrow> string \<Rightarrow> jsval" where
  "getProp obj k = (case map_of obj k of None \<Rightarrow> JUndefined | Some v \<Rightarrow> v)"

fun falsy :: "jsval \<Rightarrow> bool" where
  "falsy JUndefined = True"
| "falsy JNull = True"
| "falsy (JBool b) = (\<not> b)"
| "falsy (JNum n) = (n = 0)"
| "falsy (JStr s) = (s = [])"

definition orElse :: "jsval \<Rightarrow> jsval \<Rightarrow> jsval" where
  "orElse a b = (if falsy a then b else a)"

text \<open>Decimal digits of a number, as \<^verbatim>\<open>JSON.stringify\<close> prints an integer.\<close>

fun digits :: "nat \<Rightarrow> string" where
  "digits n = (if n < 10 then [char_of (48 + n)] else digits (n div 10) @ [char_of (48 + n mod 10)])"

definition numberToString :: "int \<Rightarrow> string" where
  "numberToString i = (if i < 0 then CHR ''-'' # digits (nat (- i)) else digits (nat i))"

definition hexDigit :: "nat \<Rightarrow> char" where
  "hexDigit d = (if d < 10 then char_of (48 + d) else char_of (87 + d))"

text \<open>
  The escapes of \<^verbatim>\<open>JSON.stringify\<close> on a string: the double quote (0x22), the backslash
  (0x5C), the five short control escapes, and a \<^verbatim>\<open>u00XX\<close> escape for the other control
  characters.
\<close>

definition escapeChar :: "char \<Rightarrow> string" where
  "escapeChar c =
     (let n = (of_char c :: nat) in
      if n = 0x22 then [CHR 0x5C, CHR 0x22]
      else if n = 0x5C then [CHR 0x5C, CHR 0x5C]
      else if n = 0x08 then [CHR 0x5C, CHR ''b'']
      else if n = 0x0C then [CHR 0x5C, CHR ''f'']
      else if n = 0x0A then [CHR 0x5C, CHR ''n'']
      else if n = 0x0D then [CHR 0x5C, CHR ''r'']
      else if n = 0x09 then [CHR 0x5C, CHR ''t'']
      else if n < 0x20 then
        [CHR 0x5C, CHR ''u'', CHR ''0'', CHR ''0'', hexDigit (n div 16), hexDigit (n mod 16)]
      else [c])"

definition quoteString :: "string \<Rightarrow> string" where
  "quoteString s = [CHR 0x22] @ concat (map escapeChar s) @ [CHR 0x22]"

text \<open>
  \<^verbatim>\<open>JSON.stringify\<close> on a primitive; it returns \<^verbatim>\<open>undefined\<close> (here \<open>None\<close>) for
  \<^verbatim>\<open>undefined\<close>.
\<close>

fun JSON_stringify :: "jsval \<Rightarrow> string option" where
  "JSON_stringify JUndefined = None"
| "JSON_stringify JNull = Some ''null''"
| "JSON_stringify (JBool b) = Some (if b then ''true'' else ''false'')"
| "JSON_stringify (JNum n) = Some (numberToString n)"
| "JSON_stringify (JStr s) = Some (quoteString s)"

text \<open>\<^verbatim>\<open>Array.prototype.join\<close>: an \<^verbatim>\<open>undefined\<close> element is joined as the empty string.\<close>

fun join :: "string \<Rightarrow> string option list \<Rightarrow> string" where
  "join sep [] = []"
| "join sep [x] = (case x of None \<Rightarrow> [] | Some s \<Rightarrow> s)"
| "join sep (x # y # ys) = (case x of None \<Rightarrow> [] | Some s \<Rightarrow> s) @ sep @ join sep (y # ys)"

text \<open>
  \<^verbatim>\<open>exportDataToCSV\<close> (lines 20-41): the text of the file that is offered for download,
  \<open>None\<close> when \<^verbatim>\<open>data\<close> is empty and the function returns early.
\<close>

definition csvCell :: "jsobject \<Rightarrow> string \<Rightarrow> string option" where
  "csvCell row header = JSON_stringify (orElse (getProp row header) (JStr []))"

definition csvRow :: "string list \<Rightarrow> jsobject \<Rightarrow> string" where
  "csvRow headers row = join [CHR 0x2C] (map (\<lambda>header. csvCell row header) headers)"

definition exportDataToCSV :: "jsobject list \<Rightarrow> string option" where
  "exportDataToCSV data =
     (case data of
        [] \<Rightarrow> None
      | first # _ \<Rightarrow>
          (let headers = map fst first;
               csvContent = join [CHR 0x0A]
                 (map Some (join [CHR 0x2C] (map Some headers) # map (csvRow headers) data))
           in Some csvContent))"

text \<open>\<^verbatim>\<open>String.prototype.split\<close> on a one-character separator: always at least one piece.\<close>

fun split_str :: "char \<Rightarrow> string \<Rightarrow> string list" where
  "split_str sep [] = [[]]"
| "split_str sep (c # cs) =
     (if c = sep then [] # split_str sep cs
      else (case split_str sep cs of
              [] \<Rightarrow> [[c]]
            | piece # rest \<Rightarrow> (c # piece) # rest))"

definition stripQuotes :: "string \<Rightarrow> string" where
  "stripQuotes s = filter (\<lambda>c. c \<noteq> CHR 0x22) s"

text \<open>
  \<^verbatim>\<open>obj[header] = value\<close> on an object literal: an existing property keeps its place, a new
  one is added last, and a string assigned to \<^verbatim>\<open>__proto__\<close> creates no property.
\<close>

fun assign :: "jsobject \<Rightarrow> string \<Rightarrow> jsval \<Rightarrow> jsobject" where
  "assign [] k v = [(k, v)]"
| "assign ((k', v') # rest) k v = (if k' = k then (k, v) # rest else (k', v') # assign rest k v)"

definition setProp :: "jsobject \<Rightarrow> string \<Rightarrow> jsval \<Rightarrow> jsobject" where
  "setProp obj k v = (if k = ''__proto__'' then obj else assign obj k v)"

text \<open>\<^verbatim>\<open>values[index] || ''\<close>: a missing cell and an empty cell both give the empty string.\<close>

definition cellAt :: "string list \<Rightarrow> nat \<Rightarrow> string" where
  "cellAt values index' = (if index' < length values then values ! index' else [])"

definition parseLine :: "string list \<Rightarrow> string \<Rightarrow> jsobject" where
  "parseLine headers line =
     (let values = map stripQuotes (split_str (CHR 0x2C) line)
      in foldl (\<lambda>obj (header, index'). setProp obj header (JStr (cellAt values index')))
           [] (zip headers [0 ..< length headers]))"

definition someNonEmpty :: "jsobject \<Rightarrow> bool" where
  "someNonEmpty obj = list_ex (\<lambda>v. v \<noteq> JStr []) (map snd obj)"

text \<open>
  \<^verbatim>\<open>parseCSVFile\<close> (lines 59-83) on the text the reader delivers: the records the promise
  resolves with.
\<close>

definition parseCSVFile :: "string \<Rightarrow> jsobject list" where
  "parseCSVFile csv =
     (let lines = split_str (CHR 0x0A) csv;
          headers = map stripQuotes (split_str (CHR 0x2C) (hd lines));
          data = filter someNonEmpty (map (parseLine headers) (tl lines))
      in data)"

section \<open>Category deletion\<close>

text \<open>
  The external data store is not part of the repository. The handlers below reach it through
  three calls; the model keeps the two tables those calls touch, lets each call fail as the
  environment decides (\<open>Faults\<close>), and records every call and every user notification
  in a trace. A successful \<^verbatim>\<open>delete().eq('id', x)\<close> removes the rows whose id is \<open>x\<close>; a
  successful \<^verbatim>\<open>select\<close> returns the table, in the order the query asks for.
\<close>

record Backend =
  cat_rows :: "Category list"
  prod_rows :: "Product list"

record Faults =
  delete_fails :: bool
  select_categories_fails :: bool
  select_products_fails :: bool

text \<open>
  The page keeps its product counts in an object literal, \<^verbatim>\<open>Record<string, number>\<close>, that
  starts as \<^verbatim>\<open>{}\<close>. A read \<^verbatim>\<open>counts[k]\<close> finds an own property first and then the members
  that every object literal inherits from \<^verbatim>\<open>Object.prototype\<close> (\<open>protoMembers\<close>): functions,
  and for \<^verbatim>\<open>__proto__\<close> the prototype object itself (\<open>Inherited\<close>). Adding 1 to such a value
  gives a string that does not read as a number (\<open>Text\<close>), and so does adding 1 to that
  string. An assignment creates an own property, except that a string assigned to
  \<^verbatim>\<open>__proto__\<close> is dropped.
\<close>

datatype jscount = Count nat | Text | Inherited

definition protoMembers :: "string list" where
  "protoMembers =
     [''constructor'', ''__defineGetter__'', ''__defineSetter__'', ''hasOwnProperty'',
      ''__lookupGetter__'', ''__lookupSetter__'', ''isPrototypeOf'', ''propertyIsEnumerable'',
      ''toString'', ''valueOf'', ''__proto__'', ''toLocaleString'']"

definition readProp :: "(string \<rightharpoonup> jscount) \<Rightarrow> string \<Rightarrow> jscount option" where
  "readProp obj k =
     (case obj k of
        Some v \<Rightarrow> Some v
      | None \<Rightarrow> if k \<in> set protoMembers then Some Inherited else None)"

text \<open>\<^verbatim>\<open>v || 0\<close>: \<^verbatim>\<open>undefined\<close> and 0 give 0, every other value is truthy.\<close>

definition orZero :: "jscount option \<Rightarrow> jscount" where
  "orZero v = (case v of None \<Rightarrow> Count 0 | Some x \<Rightarrow> x)"

fun plusOne :: "jscount \<Rightarrow> jscount" where
  "plusOne (Count n) = Count (n + 1)"
| "plusOne Text = Text"
| "plusOne Inherited = Text"

definition writeProp :: "(string \<rightharpoonup> jscount) \<Rightarrow> string \<Rightarrow> jscount \<Rightarrow> (string \<rightharpoonup> jscount)" where
  "writeProp obj k v = (if k = ''__proto__'' then obj else obj(k \<mapsto> v))"

text \<open>\<^verbatim>\<open>productCount > 0\<close>: false for a value that does not read as a number.\<close>

fun positive :: "jscount \<Rightarrow> bool" where
  "positive (Count n) = (n > 0)"
| "positive Text = False"
| "positive Inherited = False"

text \<open>
  The notifications of src/client/src/pages/Categories.tsx: "cannot delete, this category has
  N products, move them to another category first" (\<open>CannotDelete N\<close>), "category deleted"
  (\<open>DeleteSucceeded\<close>), "the category could not be deleted" (\<open>DeleteFailed\<close>) and "the
  categories could not be loaded" (\<open>LoadFailed\<close>).
\<close>

datatype toast = CannotDelete jscount | DeleteSucceeded | DeleteFailed | LoadFailed

datatype event =
    Toast toast
  | DeleteCategoryCall string
  | SelectCategoriesCall
  | SelectProductsCall
  | ConsoleError

text \<open>The page state that the two handlers read and write.\<close>

record CategoriesPage =
  page_categories :: "Category list"
  productCounts :: "string \<rightharpoonup> jscount"
  isLoading :: bool

text \<open>\<^verbatim>\<open>counts[product.category_id] = (counts[product.category_id] || 0) + 1\<close> (line 46).\<close>

definition countProduct :: "(string \<rightharpoonup> jscount) \<Rightarrow> Product \<Rightarrow> (string \<rightharpoonup> jscount)" where
  "countProduct counts product =
     writeProp counts (category_id product)
       (plusOne (orZero (readProp counts (category_id product))))"

text \<open>\<^verbatim>\<open>fetchCategories\<close> (lines 28-60).\<close>

definition fetchCategories :: "Faults \<Rightarrow> Backend \<Rightarrow> CategoriesPage \<Rightarrow> CategoriesPage \<times> event list" where
  "fetchCategories faults backend page =
     (if select_categories_fails faults then
        (page\<lparr>isLoading := False\<rparr>, [SelectCategoriesCall, Toast LoadFailed])
      else if select_products_fails faults then
        (page\<lparr>isLoading := False\<rparr>, [SelectCategoriesCall, SelectProductsCall, Toast LoadFailed])
      else
        (let counts = foldl countProduct Map.empty (prod_rows backend)
         in (page\<lparr>page_categories := cat_rows backend, productCounts := counts, isLoading := False\<rparr>,
             [SelectCategoriesCall, SelectProductsCall])))"

text \<open>
  \<^verbatim>\<open>handleDeleteCategory\<close> (lines 67-100): the new store, the new page state and the trace.
\<close>

definition handleDeleteCategory ::
  "Faults \<Rightarrow> Backend \<Rightarrow> CategoriesPage \<Rightarrow> string \<Rightarrow> (Backend \<times> CategoriesPage) \<times> event list" where
  "handleDeleteCategory faults backend page categoryId =
     (let productCount = orZero (readProp (productCounts page) categoryId)
      in if positive productCount then
           ((backend, page), [Toast (CannotDelete productCount)])
         else if delete_fails faults then
           ((backend, page), [DeleteCategoryCall categoryId, Toast DeleteFailed])
         else
           (let backend' = backend\<lparr>cat_rows := filter (\<lambda>c. cat_id c \<noteq> categoryId) (cat_rows backend)\<rparr>;
                (page', evs) = fetchCategories faults backend' page
            in ((backend', page'),
                [DeleteCategoryCall categoryId, Toast DeleteSucceeded] @ evs)))"

text \<open>
  \<^verbatim>\<open>deleteCategory\<close> of the second store of src/unnamed/part_003 (lines 466-473): the call
  is issued at once, and the local list is filtered when it succeeds.
\<close>

definition deleteCategory ::
  "(Product list \<Rightarrow> StockMovement list \<Rightarrow> StockStats) \<Rightarrow> timestamp \<Rightarrow> Faults \<Rightarrow> Backend
    \<Rightarrow> StockState \<Rightarrow> string \<Rightarrow> (Backend \<times> StockState) \<times> event list" where
  "deleteCategory calc now faults backend state id' =
     (if delete_fails faults then
        ((backend, state), [DeleteCategoryCall id', ConsoleError])
      else
        ((backend\<lparr>cat_rows := filter (\<lambda>c. cat_id c \<noteq> id') (cat_rows backend)\<rparr>,
          stockReducer_v2 calc now state
            (SET_CATEGORIES (filter (\<lambda>c. cat_id c \<noteq> id') (categories state)))),
         [DeleteCategoryCall id']))"

text \<open>The number of products of the store that reference a category.\<close>

definition referencing :: "Backend \<Rightarrow> string \<Rightarrow> nat" where
  "referencing backend cid = length (filter (\<lambda>p. category_id p = cid) (prod_rows backend))"

section \<open>The properties as the specification words them\<close>

text \<open>
  The specification's low-stock count: the products with \<open>0 < current_stock \<le> min_stock\<close>.
\<close>

definition lowStock_spec :: "Product list \<Rightarrow> nat" where
  "lowStock_spec ps =
     length (filter (\<lambda>p. 0 < current_stock p \<and> current_stock p \<le> min_stock p) ps)"

text \<open>
  The specification's stock-level bucket: \<open>out\<close> at 0, \<open>low\<close> up to \<open>min_stock\<close>,
  \<open>medium\<close> up to twice \<open>min_stock\<close>, \<open>high\<close> otherwise.
\<close>

definition stockLevel_spec :: "Product \<Rightarrow> StockLevel" where
  "stockLevel_spec p =
     (if current_stock p = 0 then Out
      else if 0 < current_stock p \<and> current_stock p \<le> min_stock p then Low
      else if min_stock p < current_stock p \<and> current_stock p \<le> 2 * min_stock p then Medium
      else High)"

section \<open>Sample data\<close>

definition sampleProduct :: "string \<Rightarrow> string \<Rightarrow> int \<Rightarrow> int \<Rightarrow> int option \<Rightarrow> Product" where
  "sampleProduct i c s m mx =
     \<lparr>pr_id = i, name = ''Widget'', sku = ''W-1'', description = None, category_id = c,
      supplier_id = ''s1'', current_stock = s, min_stock = m, max_stock = mx, unit_price = 5,
      barcode = None, location = None, created_at = 0, updated_at = 0\<rparr>"

definition sampleMovement :: "string \<Rightarrow> string \<Rightarrow> int \<Rightarrow> StockMovement" where
  "sampleMovement p t q =
     \<lparr>mv_id = ''m1'', product_id = p, mv_type = t, quantity = q, reason = ''sale'',
      reference = None, mv_notes = None, mv_created_at = 1000, created_by = None\<rparr>"

definition sampleState :: StockState where
  "sampleState = initialState\<lparr>products :=
     [sampleProduct ''p1'' ''c1'' 10 4 None, sampleProduct ''p2'' ''c2'' 2 5 None]\<rparr>"

text \<open>A store state with a category filter, a stock-level filter and nothing else set.\<close>

definition filterState :: StockState where
  "filterState = initialState
     \<lparr>products := [sampleProduct ''p1'' ''c1'' 3 5 None, sampleProduct ''p2'' ''c1'' 50 5 None,
                   sampleProduct ''p3'' ''c2'' 3 5 None],
      sfilter := \<lparr>category = Some ''c1'', supplier = None, stockLevel = Some Low,
                  searchTerm = None\<rparr>\<rparr>"

text \<open>The same state with a supplier set as well, and with the empty string as category.\<close>

definition supplierFilterState :: StockState where
  "supplierFilterState = filterState\<lparr>sfilter := (sfilter filterState)\<lparr>supplier := Some ''s2''\<rparr>\<rparr>"

definition emptyCategoryState :: StockState where
  "emptyCategoryState = filterState\<lparr>sfilter := (sfilter filterState)\<lparr>category := Some []\<rparr>\<rparr>"

text \<open>The state with the category and the stock-level filter taken out of the filter.\<close>

definition clearBoth :: "StockState \<Rightarrow> StockState" where
  "clearBoth s = s\<lparr>sfilter := (sfilter s)\<lparr>category := None, stockLevel := None\<rparr>\<rparr>"

text \<open>A record with every falsy field replaced by the empty string.\<close>

definition blankFalsy :: "jsobject \<Rightarrow> jsobject" where
  "blankFalsy row = map (\<lambda>(k, v). (k, orElse v (JStr []))) row"

definition widget :: jsobject where
  "widget = [(''name'', JStr ''Widget, Large''), (''sku'', JStr ''W-1'')]"

definition widgetCsv :: string where
  "widgetCsv = ''name,sku'' @ [CHR 0x0A, CHR 0x22] @ ''Widget, Large''
                 @ [CHR 0x22, CHR 0x2C, CHR 0x22] @ ''W-1'' @ [CHR 0x22]"

definition bolt :: jsobject where
  "bolt = [(''name'', JStr ''Bolt''), (''qty'', JNum 0), (''active'', JBool False)]"

definition boltCsv :: string where
  "boltCsv = ''name,qty,active'' @ [CHR 0x0A, CHR 0x22] @ ''Bolt''
               @ [CHR 0x22, CHR 0x2C, CHR 0x22, CHR 0x22, CHR 0x2C, CHR 0x22, CHR 0x22]"

text \<open>
  A file with a header line, a row with a quoted cell, an empty line, a line that holds only
  a comma, and a final line break.
\<close>

definition sampleCsv :: string where
  "sampleCsv = ''a,b'' @ [CHR 0x0A, CHR 0x22] @ ''1'' @ [CHR 0x22] @ '',2''
                 @ [CHR 0x0A, CHR 0x0A] @ '','' @ [CHR 0x0A]"

definition sampleCategory :: "string \<Rightarrow> Category" where
  "sampleCategory c =
     \<lparr>cat_id = c, cat_name = ''Tools'', cat_description = None, cat_created_at = None\<rparr>"

text \<open>A store with two categories; two products reference the first, none the second.\<close>

definition sampleBackend :: Backend where
  "sampleBackend =
     \<lparr>cat_rows = [sampleCategory ''c1'', sampleCategory ''c2''],
      prod_rows = [sampleProduct ''p1'' ''c1'' 10 4 None, sampleProduct ''p2'' ''c1'' 2 5 None]\<rparr>"

definition noFaults :: Faults where
  "noFaults =
     \<lparr>delete_fails = False, select_categories_fails = False, select_products_fails = False\<rparr>"

definition deleteRefused :: Faults where
  "deleteRefused =
     \<lparr>delete_fails = True, select_categories_fails = False, select_products_fails = False\<rparr>"

definition emptyPage :: CategoriesPage where
  "emptyPage = \<lparr>page_categories = [], productCounts = Map.empty, isLoading = True\<rparr>"

definition loadedPage :: CategoriesPage where
  "loadedPage = fst (fetchCategories noFaults sampleBackend emptyPage)"

definition sampleStore :: StockState where
  "sampleStore = sampleState\<lparr>categories := cat_rows sampleBackend\<rparr>"

section \<open>The reducers\<close>

text \<open>
  Claim C7. Dispatching \<^verbatim>\<open>SET_PRODUCTS\<close> twice with the same list gives the same state as
  dispatching it once, in each of the three reducers.
\<close>

theorem set_products_idempotent:
  "stockReducer now (stockReducer now s (SET_PRODUCTS P)) (SET_PRODUCTS P)
     = stockReducer now s (SET_PRODUCTS P) \<and>
   stockReducer_v1 now (stockReducer_v1 now s (SET_PRODUCTS P)) (SET_PRODUCTS P)
     = stockReducer_v1 now s (SET_PRODUCTS P) \<and>
   stockReducer_v2 calc now (stockReducer_v2 calc now s (SET_PRODUCTS P)) (SET_PRODUCTS P)
     = stockReducer_v2 calc now s (SET_PRODUCTS P)"
  by simp

lemma handled_tag: "a \<noteq> UNRECOGNIZED (action_type a) \<Longrightarrow> action_type a \<in> set handled_types"
  by (cases a) (simp_all add: handled_types_def)

text \<open>
  Claim C8. The reducers are total, and an action whose tag is none of the thirteen case
  labels takes the \<^verbatim>\<open>default\<close> branch: the state is returned unchanged.
\<close>

theorem unhandled_identity:
  assumes "action_type a \<notin> set handled_types"
  shows "stockReducer now s a = s \<and> stockReducer_v1 now s a = s \<and>
         stockReducer_v2 calc now s a = s"
proof -
  from assms obtain t where "a = UNRECOGNIZED t"
    using handled_tag by metis
  then show ?thesis by simp
qed

theorem unhandled_identity_witness:
  "action_type (UNRECOGNIZED ''RESET'') \<notin> set handled_types \<and>
   stockReducer 0 sampleState (UNRECOGNIZED ''RESET'') = sampleState \<and>
   stockReducer_v1 0 sampleState (UNRECOGNIZED ''RESET'') = sampleState \<and>
   stockReducer_v2 (calculateStats_v1 0) 0 sampleState (UNRECOGNIZED ''RESET'') = sampleState"
proof -
  have h: "action_type (UNRECOGNIZED ''RESET'') \<notin> set handled_types"
    by (simp add: handled_types_def)
  from unhandled_identity [OF h] h show ?thesis by blast
qed

text \<open>
  Claim C1, as amended. In the second store of src/unnamed/part_003 the reducer prepends an
  added movement and, in the same step, sets the stock of every product the movement
  targets: \<open>max 0 (s - q)\<close> for the direction "out" (never negative), \<open>s + q\<close> for "in";
  the list keeps its length and every other product is unchanged. The reducers of
  StockContext.tsx and of the first store of part_003 only prepend the movement and leave
  the products as they are.
\<close>

theorem add_movement_effect:
  "movements (stockReducer_v2 calc now s (ADD_MOVEMENT m)) = m # movements s \<and>
   length (products (stockReducer_v2 calc now s (ADD_MOVEMENT m))) = length (products s) \<and>
   (\<forall>i < length (products s).
      (pr_id (products s ! i) = product_id m \<and> mv_type m = ''out'' \<longrightarrow>
         current_stock (products (stockReducer_v2 calc now s (ADD_MOVEMENT m)) ! i)
           = max 0 (current_stock (products s ! i) - quantity m) \<and>
         0 \<le> current_stock (products (stockReducer_v2 calc now s (ADD_MOVEMENT m)) ! i)) \<and>
      (pr_id (products s ! i) = product_id m \<and> mv_type m = ''in'' \<longrightarrow>
         current_stock (products (stockReducer_v2 calc now s (ADD_MOVEMENT m)) ! i)
           = current_stock (products s ! i) + quantity m) \<and>
      (pr_id (products s ! i) \<noteq> product_id m \<longrightarrow>
         products (stockReducer_v2 calc now s (ADD_MOVEMENT m)) ! i = products s ! i)) \<and>
   stockReducer now s (ADD_MOVEMENT m) = s\<lparr>movements := m # movements s\<rparr> \<and>
   stockReducer_v1 now s (ADD_MOVEMENT m) = s\<lparr>movements := m # movements s\<rparr>"
  by (simp add: applyMovement_def Let_def)

theorem add_movement_effect_witness:
  "current_stock (products (stockReducer_v2 (calculateStats_v1 0) 5 sampleState
      (ADD_MOVEMENT (sampleMovement ''p1'' ''out'' 30))) ! 0) = 0 \<and>
   current_stock (products (stockReducer_v2 (calculateStats_v1 0) 5 sampleState
      (ADD_MOVEMENT (sampleMovement ''p1'' ''in'' 30))) ! 0) = 40 \<and>
   products (stockReducer_v2 (calculateStats_v1 0) 5 sampleState
      (ADD_MOVEMENT (sampleMovement ''p1'' ''out'' 30))) ! 1 = products sampleState ! 1"
  using add_movement_effect [of "calculateStats_v1 0" 5 sampleState "sampleMovement ''p1'' ''out'' 30"]
        add_movement_effect [of "calculateStats_v1 0" 5 sampleState "sampleMovement ''p1'' ''in'' 30"]
  by (simp add: sampleState_def sampleProduct_def sampleMovement_def initialState_def
        applyMovement_def)

text \<open>
  Claim C1 as first stated fails on the reducer of StockContext.tsx: a movement "out" of 3
  against a product with 10 in stock leaves the stock at 10.
\<close>

theorem add_movement_ctx_counterexample:
  "current_stock (products (stockReducer 0 sampleState
      (ADD_MOVEMENT (sampleMovement ''p1'' ''out'' 3))) ! 0)
     \<noteq> max 0 (current_stock (products sampleState ! 0) - quantity (sampleMovement ''p1'' ''out'' 3))"
  by (simp add: sampleState_def sampleProduct_def sampleMovement_def)

section \<open>Stats and stock levels\<close>

text \<open>
  Claim C2, as amended. The calculator of StockContext.tsx returns as \<open>lowStockItems\<close> the
  number of products with \<open>0 < current_stock \<le> min_stock\<close>; a product with no stock is
  counted as out of stock and never as low. The calculator of the first store of part_003
  counts every product with \<open>current_stock \<le> min_stock\<close>.
\<close>

theorem lowStock_count:
  "lowStockItems (calculateStats now P M) = lowStock_spec P \<and>
   outOfStockItems (calculateStats now P M) = length (filter (\<lambda>p. current_stock p = 0) P) \<and>
   lowStockItems (calculateStats now (filter (\<lambda>p. current_stock p = 0) P) M) = 0 \<and>
   lowStockItems (calculateStats_v1 now P M)
     = length (filter (\<lambda>p. current_stock p \<le> min_stock p) P) \<and>
   outOfStockItems (calculateStats_v1 now P M)
     = length (filter (\<lambda>p. current_stock p = 0) P)"
proof -
  have "filter (\<lambda>p. current_stock p \<le> min_stock p \<and> current_stock p > 0) P
        = filter (\<lambda>p. 0 < current_stock p \<and> current_stock p \<le> min_stock p) P"
    by (rule filter_cong) auto
  then show ?thesis by (simp add: calculateStats_def calculateStats_v1_def lowStock_spec_def)
qed

text \<open>
  Claim C2 as first stated fails on the calculator of the first store of part_003: a
  product with no stock and a minimum of 10 is counted as low.
\<close>

theorem lowStock_v1_counterexample:
  "lowStockItems (calculateStats_v1 0 [sampleProduct ''p1'' ''c1'' 0 10 None] [])
     \<noteq> lowStock_spec [sampleProduct ''p1'' ''c1'' 0 10 None]"
  by (simp add: calculateStats_v1_def lowStock_spec_def sampleProduct_def)

text \<open>
  Claim C3, as amended. For a product whose stock is not negative, \<^verbatim>\<open>getStockLevel\<close> of
  StockContext.tsx (and of the second store of part_003) returns \<open>out\<close> at 0, \<open>low\<close> for
  \<open>0 < s \<le> min_stock\<close>, \<open>medium\<close> for \<open>min_stock < s \<le> 2 * min_stock\<close> and \<open>high\<close>
  otherwise. \<^verbatim>\<open>getStockLevel\<close> of the first store of part_003 agrees on \<open>out\<close> and
  \<open>low\<close>; above \<open>min_stock\<close> it returns \<open>high\<close> when \<open>max_stock\<close> is set, not zero and
  reached, and \<open>medium\<close> otherwise.
\<close>

theorem stockLevel_buckets:
  "(0 \<le> current_stock p \<longrightarrow> getStockLevel p = stockLevel_spec p) \<and>
   (current_stock p = 0 \<longrightarrow> getStockLevel_v1 p = Out) \<and>
   (0 \<le> current_stock p \<and> current_stock p \<le> min_stock p \<longrightarrow>
      getStockLevel_v1 p = stockLevel_spec p) \<and>
   (0 < current_stock p \<and> min_stock p < current_stock p \<longrightarrow>
      getStockLevel_v1 p =
        (if (\<exists>m. max_stock p = Some m \<and> m \<noteq> 0 \<and> m \<le> current_stock p) then High else Medium))"
  by (auto simp add: getStockLevel_def getStockLevel_v1_def stockLevel_spec_def
        split: option.splits)

theorem stockLevel_buckets_witness:
  "getStockLevel (sampleProduct ''p1'' ''c1'' 0 10 None) = Out \<and>
   getStockLevel (sampleProduct ''p1'' ''c1'' 10 10 None) = Low \<and>
   getStockLevel (sampleProduct ''p1'' ''c1'' 20 10 None) = Medium \<and>
   getStockLevel (sampleProduct ''p1'' ''c1'' 21 10 None) = High \<and>
   getStockLevel_v1 (sampleProduct ''p1'' ''c1'' 21 10 (Some 20)) = High"
  using stockLevel_buckets [of "sampleProduct ''p1'' ''c1'' 0 10 None"]
        stockLevel_buckets [of "sampleProduct ''p1'' ''c1'' 10 10 None"]
        stockLevel_buckets [of "sampleProduct ''p1'' ''c1'' 20 10 None"]
        stockLevel_buckets [of "sampleProduct ''p1'' ''c1'' 21 10 None"]
        stockLevel_buckets [of "sampleProduct ''p1'' ''c1'' 21 10 (Some 20)"]
  by (simp add: stockLevel_spec_def sampleProduct_def)

text \<open>
  Claim C3 as first stated fails on \<^verbatim>\<open>getStockLevel\<close> of the first store of part_003: with
  100 in stock, a minimum of 10 and no maximum the bucket is \<open>medium\<close>, not \<open>high\<close>.
\<close>

theorem stockLevel_v1_counterexample:
  "getStockLevel_v1 (sampleProduct ''p1'' ''c1'' 100 10 None)
     \<noteq> stockLevel_spec (sampleProduct ''p1'' ''c1'' 100 10 None)"
  by (simp add: getStockLevel_v1_def stockLevel_spec_def sampleProduct_def)

section \<open>Filtering\<close>

text \<open>
  Claim C6, as amended. When the filter has a category \<open>X\<close> that is not the empty string
  and the stock level \<open>low\<close> set, the products returned are exactly those that pass both
  tests at once, out of what the rest of the filter (search term, supplier) lets through:
  the intersection, never the union. With no search term and no supplier set they are
  exactly the products of the state with \<open>category_id = X\<close> and the level \<open>low\<close>. Both
  stores.
\<close>

theorem filter_composition:
  assumes "category (sfilter s) = Some X" and "X \<noteq> []" and "stockLevel (sfilter s) = Some Low"
  shows "getFilteredProducts s
           = filter (\<lambda>p. category_id p = X \<and> getStockLevel p = Low)
               (getFilteredProducts (clearBoth s)) \<and>
         getFilteredProducts_v1 s
           = filter (\<lambda>p. category_id p = X \<and> getStockLevel_v1 p = Low)
               (getFilteredProducts_v1 (clearBoth s)) \<and>
         set (getFilteredProducts s)
           = set (getFilteredProducts (clearBoth s))
               \<inter> {p. category_id p = X} \<inter> {p. getStockLevel p = Low} \<and>
         (\<not> truthy (searchTerm (sfilter s)) \<and> \<not> truthy (supplier (sfilter s)) \<longrightarrow>
            getFilteredProducts s
              = filter (\<lambda>p. category_id p = X \<and> getStockLevel p = Low) (products s) \<and>
            getFilteredProducts_v1 s
              = filter (\<lambda>p. category_id p = X \<and> getStockLevel_v1 p = Low) (products s))"
proof -
  have a: "getFilteredProducts s
           = filter (\<lambda>p. category_id p = X \<and> getStockLevel p = Low)
               (getFilteredProducts (clearBoth s))"
    using assms
    by (auto simp add: getFilteredProducts_def clearBoth_def Let_def split: option.splits
          intro: filter_cong)
  have b: "getFilteredProducts_v1 s
           = filter (\<lambda>p. category_id p = X \<and> getStockLevel_v1 p = Low)
               (getFilteredProducts_v1 (clearBoth s))"
    using assms
    by (auto simp add: getFilteredProducts_v1_def clearBoth_def Let_def split: option.splits
          intro: filter_cong)
  have c: "\<not> truthy (searchTerm (sfilter s)) \<Longrightarrow> \<not> truthy (supplier (sfilter s)) \<Longrightarrow>
           getFilteredProducts (clearBoth s) = products s"
    by (auto simp add: getFilteredProducts_def clearBoth_def truthy_def Let_def
          split: option.splits)
  have d: "\<not> truthy (searchTerm (sfilter s)) \<Longrightarrow> \<not> truthy (supplier (sfilter s)) \<Longrightarrow>
           getFilteredProducts_v1 (clearBoth s) = products s"
    by (auto simp add: getFilteredProducts_v1_def clearBoth_def truthy_def Let_def
          split: option.splits)
  have e: "set (getFilteredProducts s)
           = set (getFilteredProducts (clearBoth s))
               \<inter> {p. category_id p = X} \<inter> {p. getStockLevel p = Low}"
    by (subst a) auto
  from a b c d e show ?thesis by simp
qed

theorem filter_composition_witness:
  "getFilteredProducts filterState = [sampleProduct ''p1'' ''c1'' 3 5 None] \<and>
   getFilteredProducts_v1 filterState = [sampleProduct ''p1'' ''c1'' 3 5 None]"
proof -
  have h1: "category (sfilter filterState) = Some ''c1''" by (simp add: filterState_def)
  have h2: "''c1'' \<noteq> []" by simp
  have h3: "stockLevel (sfilter filterState) = Some Low" by (simp add: filterState_def)
  have h4: "\<not> truthy (searchTerm (sfilter filterState)) \<and>
            \<not> truthy (supplier (sfilter filterState))"
    by (simp add: filterState_def truthy_def)
  from filter_composition [OF h1 h2 h3] h4
  have "getFilteredProducts filterState
          = filter (\<lambda>p. category_id p = ''c1'' \<and> getStockLevel p = Low) (products filterState) \<and>
        getFilteredProducts_v1 filterState
          = filter (\<lambda>p. category_id p = ''c1'' \<and> getStockLevel_v1 p = Low) (products filterState)"
    by blast
  then show ?thesis
    by (simp add: filterState_def sampleProduct_def getStockLevel_def getStockLevel_v1_def)
qed

text \<open>
  Claim C6 as first stated fails where another field of the filter is set, and for the empty
  string as category. With the supplier \<open>s2\<close> set too, nothing is returned although the
  product \<open>p1\<close> is in category \<open>c1\<close> and low. With the empty string as category the
  category test is skipped, and the low products of the other categories are returned.
\<close>

theorem filter_composition_counterexample:
  "category (sfilter supplierFilterState) = Some ''c1'' \<and>
   stockLevel (sfilter supplierFilterState) = Some Low \<and>
   sampleProduct ''p1'' ''c1'' 3 5 None \<in> set (products supplierFilterState) \<and>
   category_id (sampleProduct ''p1'' ''c1'' 3 5 None) = ''c1'' \<and>
   getStockLevel (sampleProduct ''p1'' ''c1'' 3 5 None) = Low \<and>
   getStockLevel_v1 (sampleProduct ''p1'' ''c1'' 3 5 None) = Low \<and>
   getFilteredProducts supplierFilterState = [] \<and>
   getFilteredProducts_v1 supplierFilterState = [] \<and>
   category (sfilter emptyCategoryState) = Some [] \<and>
   stockLevel (sfilter emptyCategoryState) = Some Low \<and>
   category_id (sampleProduct ''p1'' ''c1'' 3 5 None) \<noteq> [] \<and>
   getFilteredProducts emptyCategoryState
     = [sampleProduct ''p1'' ''c1'' 3 5 None, sampleProduct ''p3'' ''c2'' 3 5 None] \<and>
   getFilteredProducts_v1 emptyCategoryState
     = [sampleProduct ''p1'' ''c1'' 3 5 None, sampleProduct ''p3'' ''c2'' 3 5 None]"
proof -
  have a: "category (sfilter supplierFilterState) = Some ''c1'' \<and>
           stockLevel (sfilter supplierFilterState) = Some Low \<and>
           sampleProduct ''p1'' ''c1'' 3 5 None \<in> set (products supplierFilterState)"
    by (simp add: supplierFilterState_def filterState_def)
  have b: "category_id (sampleProduct ''p1'' ''c1'' 3 5 None) = ''c1'' \<and>
           getStockLevel (sampleProduct ''p1'' ''c1'' 3 5 None) = Low \<and>
           getStockLevel_v1 (sampleProduct ''p1'' ''c1'' 3 5 None) = Low \<and>
           category_id (sampleProduct ''p1'' ''c1'' 3 5 None) \<noteq> []"
    by (simp add: sampleProduct_def getStockLevel_def getStockLevel_v1_def)
  have c: "getFilteredProducts supplierFilterState = []"
    by (simp add: supplierFilterState_def filterState_def initialState_def sampleProduct_def
          getFilteredProducts_def getStockLevel_def)
  have d: "getFilteredProducts_v1 supplierFilterState = []"
    by (simp add: supplierFilterState_def filterState_def initialState_def sampleProduct_def
          getFilteredProducts_v1_def getStockLevel_v1_def)
  have e: "category (sfilter emptyCategoryState) = Some [] \<and>
           stockLevel (sfilter emptyCategoryState) = Some Low"
    by (simp add: emptyCategoryState_def filterState_def)
  have f: "getFilteredProducts emptyCategoryState
             = [sampleProduct ''p1'' ''c1'' 3 5 None, sampleProduct ''p3'' ''c2'' 3 5 None]"
    by (simp add: emptyCategoryState_def filterState_def initialState_def sampleProduct_def
          getFilteredProducts_def getStockLevel_def)
  have g: "getFilteredProducts_v1 emptyCategoryState
             = [sampleProduct ''p1'' ''c1'' 3 5 None, sampleProduct ''p3'' ''c2'' 3 5 None]"
    by (simp add: emptyCategoryState_def filterState_def initialState_def sampleProduct_def
          getFilteredProducts_v1_def getStockLevel_v1_def)
  from a b c d e f g show ?thesis by (intro conjI) simp_all
qed

section \<open>CSV export and import\<close>

lemma widget_export: "exportDataToCSV [widget] = Some widgetCsv"
  by code_simp

lemma widget_import:
  "parseCSVFile widgetCsv = [[(''name'', JStr ''Widget''), (''sku'', JStr '' Large'')]]"
  by code_simp

text \<open>
  Claim C5. There is a record with a comma in a field, \<open>name = "Widget, Large"\<close>, that the
  round trip through \<^verbatim>\<open>exportDataToCSV\<close> and \<^verbatim>\<open>parseCSVFile\<close> does not give back: the
  quoted cell is split at its comma.
\<close>

theorem csv_roundtrip_loses_commas:
  "\<exists>r k v csv. (k, JStr v) \<in> set r \<and> CHR 0x2C \<in> set v \<and>
     exportDataToCSV [r] = Some csv \<and> parseCSVFile csv \<noteq> [r] \<and>
     parseCSVFile csv = [[(''name'', JStr ''Widget''), (''sku'', JStr '' Large'')]]"
proof -
  have 1: "(''name'', JStr ''Widget, Large'') \<in> set widget" by (simp add: widget_def)
  have 2: "CHR 0x2C \<in> set ''Widget, Large''" by simp
  have 3: "exportDataToCSV [widget] = Some widgetCsv" by (rule widget_export)
  have 4: "parseCSVFile widgetCsv \<noteq> [widget]"
    unfolding widget_import by (simp add: widget_def)
  show ?thesis
    apply (rule exI [of _ widget])
    apply (rule exI [of _ "''name''"])
    apply (rule exI [of _ "''Widget, Large''"])
    apply (rule exI [of _ widgetCsv])
    apply (intro conjI 1 2 3 4 widget_import)
    done
qed

lemma getProp_blankFalsy: "getProp (blankFalsy row) h = (if h \<in> fst ` set row then orElse (getProp row h) (JStr []) else JUndefined)"
  by (induction row) (auto simp add: getProp_def blankFalsy_def)

lemma orElse_idem: "orElse (orElse v (JStr [])) (JStr []) = orElse v (JStr [])"
  by (cases v) (auto simp add: orElse_def)

lemma csvCell_blankFalsy: "csvCell (blankFalsy row) h = csvCell row h"
proof (cases "h \<in> fst ` set row")
  case True
  then show ?thesis by (simp add: csvCell_def getProp_blankFalsy orElse_idem)
next
  case False
  then have "map_of row h = None" by (simp add: map_of_eq_None_iff)
  then have a: "getProp row h = JUndefined" by (simp add: getProp_def)
  from False have b: "getProp (blankFalsy row) h = JUndefined" by (simp add: getProp_blankFalsy)
  show ?thesis by (simp add: csvCell_def a b)
qed

lemma fst_blankFalsy: "map fst (blankFalsy row) = map fst row"
  by (induction row) (auto simp add: blankFalsy_def)

lemma csvRow_blankFalsy: "csvRow headers (blankFalsy row) = csvRow headers row"
  by (simp add: csvRow_def csvCell_blankFalsy)

lemma export_blankFalsy: "exportDataToCSV (map blankFalsy data) = exportDataToCSV data"
proof (cases data)
  case Nil
  then show ?thesis by (simp add: exportDataToCSV_def)
next
  case (Cons first rest)
  have "csvRow (map fst first) \<circ> blankFalsy = csvRow (map fst first)"
    by (rule ext) (simp add: csvRow_blankFalsy)
  then show ?thesis
    unfolding Cons exportDataToCSV_def Let_def
    by (simp add: fst_blankFalsy csvRow_blankFalsy)
qed

lemma falsy_cell: "falsy v \<Longrightarrow> JSON_stringify (orElse v (JStr [])) = Some [CHR 0x22, CHR 0x22]"
  by (simp add: orElse_def quoteString_def)

lemma bolt_export: "exportDataToCSV [bolt] = Some boltCsv"
  by code_simp

lemma bolt_import:
  "parseCSVFile boltCsv = [[(''name'', JStr ''Bolt''), (''qty'', JStr []), (''active'', JStr [])]]"
  by code_simp

text \<open>
  Claim C9. \<^verbatim>\<open>exportDataToCSV\<close> writes every falsy field value (0, \<^verbatim>\<open>false\<close>, \<^verbatim>\<open>null\<close>,
  \<^verbatim>\<open>undefined\<close>, the empty string) as the cell of two double quotes. A list of records and
  the same list with its falsy fields blanked export to the same text, so the export loses
  a zero or a \<^verbatim>\<open>false\<close> also where no field holds a comma, a double quote or a line break:
  the record \<open>bolt\<close> comes back with \<open>qty\<close> and \<open>active\<close> empty.
\<close>

theorem falsy_cells_empty:
  "(falsy (getProp row header) \<longrightarrow> csvCell row header = Some [CHR 0x22, CHR 0x22]) \<and>
   csvCell [(header, JNum 0)] header = Some [CHR 0x22, CHR 0x22] \<and>
   csvCell [(header, JBool False)] header = Some [CHR 0x22, CHR 0x22] \<and>
   csvCell [(header, JNull)] header = Some [CHR 0x22, CHR 0x22] \<and>
   csvCell [(header, JUndefined)] header = Some [CHR 0x22, CHR 0x22] \<and>
   csvCell [(header, JStr [])] header = Some [CHR 0x22, CHR 0x22] \<and>
   exportDataToCSV (map blankFalsy data) = exportDataToCSV data \<and>
   (\<exists>csv. exportDataToCSV [bolt] = Some csv \<and>
      parseCSVFile csv = [[(''name'', JStr ''Bolt''), (''qty'', JStr []), (''active'', JStr [])]])"
proof -
  have a: "falsy (getProp row header) \<longrightarrow> csvCell row header = Some [CHR 0x22, CHR 0x22]"
    by (simp add: csvCell_def falsy_cell)
  have b: "\<And>v. falsy v \<Longrightarrow> csvCell [(header, v)] header = Some [CHR 0x22, CHR 0x22]"
    by (simp add: csvCell_def getProp_def falsy_cell)
  have c: "\<exists>csv. exportDataToCSV [bolt] = Some csv \<and>
      parseCSVFile csv = [[(''name'', JStr ''Bolt''), (''qty'', JStr []), (''active'', JStr [])]]"
    by (rule exI [of _ boltCsv]) (intro conjI bolt_export bolt_import)
  from a b [of "JNum 0"] b [of "JBool False"] b [of JNull] b [of JUndefined] b [of "JStr []"]
    export_blankFalsy [of data] c
  show ?thesis by simp
qed

theorem falsy_cells_empty_witness:
  "falsy (getProp bolt ''qty'') \<and> csvCell bolt ''qty'' = Some [CHR 0x22, CHR 0x22] \<and>
   falsy (getProp bolt ''active'') \<and> csvCell bolt ''active'' = Some [CHR 0x22, CHR 0x22] \<and>
   exportDataToCSV [blankFalsy bolt] = exportDataToCSV [bolt] \<and> blankFalsy bolt \<noteq> bolt"
proof -
  have q: "falsy (getProp bolt ''qty'')" by (simp add: bolt_def getProp_def)
  have a: "falsy (getProp bolt ''active'')" by (simp add: bolt_def getProp_def)
  have n: "blankFalsy bolt \<noteq> bolt" by (simp add: bolt_def blankFalsy_def orElse_def)
  from falsy_cells_empty [of bolt "''qty''" "[bolt]"] falsy_cells_empty [of bolt "''active''" "[bolt]"]
    q a n
  show ?thesis by simp
qed

lemma split_str_nonempty: "split_str sep s \<noteq> []"
  by (induction s) (auto split: list.splits)

lemma split_str_append:
  "split_str sep (a @ sep # b) = split_str sep a @ split_str sep b"
proof (induction a)
  case Nil
  show ?case by simp
next
  case (Cons c cs)
  obtain piece rest where ne: "split_str sep cs = piece # rest"
    using split_str_nonempty [of sep cs] by (cases "split_str sep cs") auto
  show ?case
  proof (cases "c = sep")
    case True
    with Cons show ?thesis by simp
  next
    case False
    with Cons ne show ?thesis by simp
  qed
qed

lemma split_str_pieces: "piece \<in> set (split_str sep s) \<Longrightarrow> set piece \<subseteq> set s - {sep}"
proof (induction s arbitrary: piece)
  case Nil
  then show ?case by simp
next
  case (Cons c cs)
  obtain p rest where ne: "split_str sep cs = p # rest"
    using split_str_nonempty [of sep cs] by (cases "split_str sep cs") auto
  show ?case
  proof (cases "c = sep")
    case True
    with Cons show ?thesis by auto
  next
    case False
    from Cons.prems False ne
    have "piece = c # p \<or> piece \<in> set rest" by simp
    then show ?thesis
    proof
      assume "piece = c # p"
      moreover have "set p \<subseteq> set cs - {sep}"
        using Cons.IH [of p] ne by simp
      ultimately show ?thesis using False by auto
    next
      assume "piece \<in> set rest"
      then have "piece \<in> set (split_str sep cs)" using ne by simp
      then show ?thesis using Cons.IH by auto
    qed
  qed
qed

lemma stripQuotes_no_quote: "CHR 0x22 \<notin> set (stripQuotes s)"
  by (simp add: stripQuotes_def)

lemma assign_pres:
  "\<forall>kv \<in> set obj. P kv \<Longrightarrow> P (k, v) \<Longrightarrow> \<forall>kv \<in> set (assign obj k v). P kv"
  by (induction obj) (auto split: if_splits)

lemma setProp_pres:
  "\<forall>kv \<in> set obj. P kv \<Longrightarrow> P (k, v) \<Longrightarrow> \<forall>kv \<in> set (setProp obj k v). P kv"
  using assign_pres [of obj P k v] by (simp add: setProp_def)

lemma foldl_setProp_pres:
  "\<forall>kv \<in> set obj. P kv \<Longrightarrow> \<forall>x \<in> set xs. P (fst x, JStr (cellAt values (snd x))) \<Longrightarrow>
   \<forall>kv \<in> set (foldl (\<lambda>obj (header, index'). setProp obj header (JStr (cellAt values index'))) obj xs). P kv"
proof (induction xs arbitrary: obj)
  case Nil
  then show ?case by simp
next
  case (Cons x xs)
  obtain h i where x: "x = (h, i)" by (cases x)
  from Cons.prems x have "P (h, JStr (cellAt values i))" by simp
  with Cons.prems(1) have "\<forall>kv \<in> set (setProp obj h (JStr (cellAt values i))). P kv"
    by (rule setProp_pres)
  moreover from Cons.prems have "\<forall>x \<in> set xs. P (fst x, JStr (cellAt values (snd x)))" by simp
  ultimately show ?case using Cons.IH x by simp
qed

lemma parseLine_pres:
  assumes "\<And>h i. h \<in> set headers \<Longrightarrow> P (h, JStr (cellAt (map stripQuotes (split_str (CHR 0x2C) line)) i))"
  shows "\<forall>kv \<in> set (parseLine headers line). P kv"
proof -
  have "\<forall>x \<in> set (zip headers [0 ..< length headers]).
          P (fst x, JStr (cellAt (map stripQuotes (split_str (CHR 0x2C) line)) (snd x)))"
    using assms by (auto dest: set_zip_leftD)
  then show ?thesis
    unfolding parseLine_def Let_def
    by (intro foldl_setProp_pres) simp_all
qed

lemma cellAt_cases: "cellAt values i = [] \<or> cellAt values i \<in> set values"
  by (simp add: cellAt_def)

lemma parseLine_no_quotes:
  assumes "\<forall>h \<in> set headers. CHR 0x22 \<notin> set h"
  shows "\<forall>kv \<in> set (parseLine headers line).
           CHR 0x22 \<notin> set (fst kv) \<and> (\<exists>s. snd kv = JStr s \<and> CHR 0x22 \<notin> set s)"
proof (rule parseLine_pres)
  fix h i
  assume h: "h \<in> set headers"
  let ?vals = "map stripQuotes (split_str (CHR 0x2C) line)"
  have "CHR 0x22 \<notin> set (cellAt ?vals i)"
    using cellAt_cases [of ?vals i] stripQuotes_no_quote by auto
  with h assms
  show "CHR 0x22 \<notin> set (fst (h, JStr (cellAt ?vals i))) \<and>
        (\<exists>s. snd (h, JStr (cellAt ?vals i)) = JStr s \<and> CHR 0x22 \<notin> set s)"
    by simp
qed

lemma parseLine_blank:
  assumes "\<forall>c \<in> set line. c = CHR 0x22 \<or> c = CHR 0x2C"
  shows "\<not> someNonEmpty (parseLine headers line)"
proof -
  let ?vals = "map stripQuotes (split_str (CHR 0x2C) line)"
  have v: "\<forall>v \<in> set ?vals. v = []"
  proof
    fix v assume "v \<in> set ?vals"
    then obtain piece where p: "piece \<in> set (split_str (CHR 0x2C) line)" and v: "v = stripQuotes piece"
      by auto
    from split_str_pieces [OF p] assms have "\<forall>c \<in> set piece. c = CHR 0x22" by auto
    then show "v = []" using v by (auto simp add: stripQuotes_def filter_empty_conv)
  qed
  have "\<forall>kv \<in> set (parseLine headers line). snd kv = JStr []"
  proof (rule parseLine_pres)
    fix h i
    show "snd (h, JStr (cellAt ?vals i)) = JStr []"
      using cellAt_cases [of ?vals i] v by auto
  qed
  then show ?thesis by (auto simp add: someNonEmpty_def list_ex_iff)
qed

lemma headers_no_quotes:
  "\<forall>h \<in> set (map stripQuotes (split_str (CHR 0x2C) l)). CHR 0x22 \<notin> set h"
  using stripQuotes_no_quote by auto

lemma parseCSVFile_extra_line:
  assumes "CHR 0x0A \<notin> set line"
  shows "parseCSVFile (csv @ CHR 0x0A # line)
         = parseCSVFile csv @
           filter someNonEmpty
             [parseLine (map stripQuotes (split_str (CHR 0x2C) (hd (split_str (CHR 0x0A) csv)))) line]"
proof -
  have l: "split_str (CHR 0x0A) line = [line]"
    using assms by (induction line) auto
  obtain first rest where c: "split_str (CHR 0x0A) csv = first # rest"
    using split_str_nonempty [of "CHR 0x0A" csv] by (cases "split_str (CHR 0x0A) csv") auto
  have "split_str (CHR 0x0A) (csv @ CHR 0x0A # line) = first # rest @ [line]"
    by (simp add: split_str_append l c)
  then show ?thesis
    by (simp add: parseCSVFile_def Let_def c)
qed

lemma parsed_records:
  assumes "obj \<in> set (parseCSVFile csv)"
  shows "(\<exists>k s. (k, JStr s) \<in> set obj \<and> s \<noteq> []) \<and>
         (\<forall>kv \<in> set obj. CHR 0x22 \<notin> set (fst kv) \<and>
            (\<exists>s. snd kv = JStr s \<and> CHR 0x22 \<notin> set s))"
proof -
  let ?headers = "map stripQuotes (split_str (CHR 0x2C) (hd (split_str (CHR 0x0A) csv)))"
  from assms obtain line where ne: "someNonEmpty obj" and obj: "obj = parseLine ?headers line"
    by (auto simp add: parseCSVFile_def Let_def)
  have q: "\<forall>kv \<in> set obj. CHR 0x22 \<notin> set (fst kv) \<and>
             (\<exists>s. snd kv = JStr s \<and> CHR 0x22 \<notin> set s)"
    unfolding obj by (rule parseLine_no_quotes) (rule headers_no_quotes)
  from ne obtain k v where kv: "(k, v) \<in> set obj" and v: "v \<noteq> JStr []"
    by (auto simp add: someNonEmpty_def list_ex_iff)
  from q kv obtain s where "v = JStr s" by fastforce
  with kv v have "(k, JStr s) \<in> set obj \<and> s \<noteq> []" by simp
  with q show ?thesis by blast
qed

lemma blank_rows_dropped:
  assumes a: "\<forall>c \<in> set line. c = CHR 0x22 \<or> c = CHR 0x2C"
  shows "parseCSVFile (csv @ CHR 0x0A # line) = parseCSVFile csv"
proof -
  let ?headers = "map stripQuotes (split_str (CHR 0x2C) (hd (split_str (CHR 0x0A) csv)))"
  have nl: "CHR 0x0A \<notin> set line"
  proof
    assume "CHR 0x0A \<in> set line"
    with a have "CHR 0x0A = CHR 0x22 \<or> CHR 0x0A = CHR 0x2C" by (rule bspec)
    then show False by simp
  qed
  have "filter someNonEmpty [parseLine ?headers line] = []"
    using parseLine_blank [OF a, of ?headers] by simp
  with parseCSVFile_extra_line [OF nl, of csv]
  show ?thesis by (simp only: append_Nil2)
qed

lemma sampleCsv_parse: "parseCSVFile sampleCsv = [[(''a'', JStr ''1''), (''b'', JStr ''2'')]]"
  by code_simp

text \<open>
  Claim C10. Every record that \<^verbatim>\<open>parseCSVFile\<close> returns has a field whose value is a
  string that is not empty, and no key and no value of it holds a double quote. A line whose
  cells are all empty once the quotes are stripped (only commas and double quotes, or
  nothing at all, as after a final line break) adds no record.
\<close>

theorem parsed_records_non_empty:
  "(obj \<in> set (parseCSVFile csv) \<longrightarrow>
      (\<exists>k s. (k, JStr s) \<in> set obj \<and> s \<noteq> []) \<and>
      (\<forall>kv \<in> set obj. CHR 0x22 \<notin> set (fst kv) \<and>
         (\<exists>s. snd kv = JStr s \<and> CHR 0x22 \<notin> set s))) \<and>
   parseCSVFile (csv @ [CHR 0x0A]) = parseCSVFile csv \<and>
   ((\<forall>c \<in> set line. c = CHR 0x22 \<or> c = CHR 0x2C) \<longrightarrow>
      parseCSVFile (csv @ CHR 0x0A # line) = parseCSVFile csv)"
proof -
  have "parseCSVFile (csv @ [CHR 0x0A]) = parseCSVFile csv"
    using blank_rows_dropped [of "[]" csv] by simp
  then show ?thesis
    using parsed_records [of obj csv] blank_rows_dropped [of line csv] by blast
qed

theorem parsed_records_non_empty_witness:
  "[(''a'', JStr ''1''), (''b'', JStr ''2'')] \<in> set (parseCSVFile sampleCsv) \<and>
   (\<exists>k s. (k, JStr s) \<in> set [(''a'', JStr ''1''), (''b'', JStr ''2'')] \<and> s \<noteq> []) \<and>
   parseCSVFile (sampleCsv @ CHR 0x0A # [CHR 0x22, CHR 0x2C, CHR 0x22]) = parseCSVFile sampleCsv \<and>
   length (parseCSVFile sampleCsv) = 1"
proof -
  have m: "[(''a'', JStr ''1''), (''b'', JStr ''2'')] \<in> set (parseCSVFile sampleCsv)"
    by (simp add: sampleCsv_parse)
  have l: "\<forall>c \<in> set [CHR 0x22, CHR 0x2C, CHR 0x22]. c = CHR 0x22 \<or> c = CHR 0x2C" by simp
  have n: "length (parseCSVFile sampleCsv) = 1" by (simp add: sampleCsv_parse)
  from parsed_records_non_empty
         [of "[(''a'', JStr ''1''), (''b'', JStr ''2'')]" sampleCsv "[CHR 0x22, CHR 0x2C, CHR 0x22]"]
       m l n
  show ?thesis by blast
qed

section \<open>Deleting a category\<close>

lemma proto_member: "''__proto__'' \<in> set protoMembers"
  by (simp add: protoMembers_def)

lemma countProduct_other:
  "category_id p \<noteq> c \<Longrightarrow> countProduct counts p c = counts c"
  by (simp add: countProduct_def writeProp_def)

lemma countProduct_hit:
  assumes "c \<notin> set protoMembers" and "category_id p = c"
  shows "counts c = None \<Longrightarrow> countProduct counts p c = Some (Count 1)"
    and "counts c = Some (Count n) \<Longrightarrow> countProduct counts p c = Some (Count (n + 1))"
proof -
  from assms(1) proto_member have ne: "c \<noteq> ''__proto__''" by auto
  show "counts c = None \<Longrightarrow> countProduct counts p c = Some (Count 1)"
    using assms ne by (simp add: countProduct_def writeProp_def readProp_def orZero_def)
  show "counts c = Some (Count n) \<Longrightarrow> countProduct counts p c = Some (Count (n + 1))"
    using assms ne by (simp add: countProduct_def writeProp_def readProp_def orZero_def)
qed

lemma foldl_countProduct_Some:
  assumes "c \<notin> set protoMembers"
  shows "counts c = Some (Count n) \<Longrightarrow>
         foldl countProduct counts ps c
           = Some (Count (n + length (filter (\<lambda>p. category_id p = c) ps)))"
proof (induction ps arbitrary: counts n)
  case Nil
  then show ?case by simp
next
  case (Cons p ps)
  show ?case
  proof (cases "category_id p = c")
    case True
    from countProduct_hit(2) [where counts = counts and p = p and c = c and n = n, OF assms True Cons.prems]
    have "foldl countProduct (countProduct counts p) ps c
            = Some (Count (n + 1 + length (filter (\<lambda>p. category_id p = c) ps)))"
      by (rule Cons.IH)
    with True show ?thesis by simp
  next
    case False
    with Cons.prems have "countProduct counts p c = Some (Count n)"
      by (simp add: countProduct_other)
    then have "foldl countProduct (countProduct counts p) ps c
            = Some (Count (n + length (filter (\<lambda>p. category_id p = c) ps)))"
      by (rule Cons.IH)
    with False show ?thesis by simp
  qed
qed

lemma foldl_countProduct_None:
  assumes "c \<notin> set protoMembers"
  shows "counts c = None \<Longrightarrow>
         foldl countProduct counts ps c
           = (if filter (\<lambda>p. category_id p = c) ps = [] then None
              else Some (Count (length (filter (\<lambda>p. category_id p = c) ps))))"
proof (induction ps arbitrary: counts)
  case Nil
  then show ?case by simp
next
  case (Cons p ps)
  show ?case
  proof (cases "category_id p = c")
    case True
    from countProduct_hit(1) [where counts = counts and p = p and c = c, OF assms True Cons.prems]
    have "foldl countProduct (countProduct counts p) ps c
            = Some (Count (1 + length (filter (\<lambda>p. category_id p = c) ps)))"
      by (rule foldl_countProduct_Some [OF assms])
    with True show ?thesis by simp
  next
    case False
    with Cons.prems have "countProduct counts p c = None"
      by (simp add: countProduct_other)
    then have "foldl countProduct (countProduct counts p) ps c
            = (if filter (\<lambda>p. category_id p = c) ps = [] then None
               else Some (Count (length (filter (\<lambda>p. category_id p = c) ps))))"
      by (rule Cons.IH)
    with False show ?thesis by simp
  qed
qed

lemma fetched_counts:
  assumes "\<not> select_categories_fails faults" and "\<not> select_products_fails faults"
    and "c \<notin> set protoMembers"
  shows "productCounts (fst (fetchCategories faults backend page0)) c =
           (if referencing backend c = 0 then None else Some (Count (referencing backend c)))"
  using assms foldl_countProduct_None [of c Map.empty "prod_rows backend"]
  by (simp add: fetchCategories_def Let_def referencing_def)

text \<open>
  A product count under a key that \<^verbatim>\<open>Object.prototype\<close> also holds never becomes a number.
\<close>

lemma countProduct_inherited:
  assumes "c \<in> set protoMembers" and "counts c = None \<or> counts c = Some Text"
  shows "countProduct counts p c = None \<or> countProduct counts p c = Some Text"
proof (cases "category_id p = c")
  case False
  with assms(2) show ?thesis by (simp add: countProduct_other)
next
  case True
  with assms show ?thesis
    by (auto simp add: countProduct_def writeProp_def readProp_def orZero_def)
qed

lemma foldl_countProduct_inherited:
  assumes "c \<in> set protoMembers"
  shows "counts c = None \<or> counts c = Some Text \<Longrightarrow>
         foldl countProduct counts ps c = None \<or> foldl countProduct counts ps c = Some Text"
proof (induction ps arbitrary: counts)
  case Nil
  then show ?case by simp
next
  case (Cons p ps)
  from countProduct_inherited [where counts = counts and p = p and c = c, OF assms Cons.prems]
  have "foldl countProduct (countProduct counts p) ps c = None \<or>
        foldl countProduct (countProduct counts p) ps c = Some Text"
    by (rule Cons.IH)
  then show ?case by simp
qed

lemma inherited_key_not_refused:
  assumes "\<not> select_categories_fails faults'" and "\<not> select_products_fails faults'"
    and "cid \<in> set protoMembers"
  shows "hd (snd (handleDeleteCategory faults backend (fst (fetchCategories faults' backend page0)) cid))
           = DeleteCategoryCall cid"
proof -
  let ?page = "fst (fetchCategories faults' backend page0)"
  have "productCounts ?page cid = None \<or> productCounts ?page cid = Some Text"
    using assms(1,2) foldl_countProduct_inherited [OF assms(3), of Map.empty "prod_rows backend"]
    by (simp add: fetchCategories_def Let_def)
  then have "\<not> positive (orZero (readProp (productCounts ?page) cid))"
    using assms(3) by (auto simp add: readProp_def orZero_def)
  then show ?thesis
    by (simp add: handleDeleteCategory_def Let_def split: prod.splits)
qed

text \<open>
  Claim C4, as amended. In the categories page, \<^verbatim>\<open>handleDeleteCategory\<close> refuses a category
  whose product count \<open>N\<close> is positive before any call to the store: the only effect is the
  notification that carries \<open>N\<close>, and neither the store nor the page changes. On a page just
  loaded from the store, \<open>N\<close> is the number of products that reference the category, for
  every category id that is not the name of a member of \<^verbatim>\<open>Object.prototype\<close>. With a count
  of 0 the delete call is issued; when it fails nothing changes, and when it and the reload
  succeed the category is no longer in the list. \<^verbatim>\<open>deleteCategory\<close> of the second store of
  part_003 has no such guard: it issues the delete call at once and, when the call succeeds,
  takes the category out of its list.
\<close>

theorem delete_category_guard:
  "(productCounts page cid = Some (Count n) \<and> 0 < n \<longrightarrow>
      handleDeleteCategory faults backend page cid
        = ((backend, page), [Toast (CannotDelete (Count n))])) \<and>
   ((productCounts page cid = None \<or> productCounts page cid = Some (Count 0)) \<longrightarrow>
      hd (snd (handleDeleteCategory faults backend page cid)) = DeleteCategoryCall cid \<and>
      (delete_fails faults \<longrightarrow>
         handleDeleteCategory faults backend page cid
           = ((backend, page), [DeleteCategoryCall cid, Toast DeleteFailed])) \<and>
      (\<not> delete_fails faults \<and> \<not> select_categories_fails faults \<and> \<not> select_products_fails faults \<longrightarrow>
         page_categories (snd (fst (handleDeleteCategory faults backend page cid)))
           = filter (\<lambda>c. cat_id c \<noteq> cid) (cat_rows backend) \<and>
         cid \<notin> cat_id ` set (page_categories (snd (fst (handleDeleteCategory faults backend page cid)))))) \<and>
   (cid \<notin> set protoMembers \<and> \<not> select_categories_fails faults' \<and> \<not> select_products_fails faults' \<and>
    0 < referencing backend cid \<longrightarrow>
      handleDeleteCategory faults backend (fst (fetchCategories faults' backend page0)) cid
        = ((backend, fst (fetchCategories faults' backend page0)),
           [Toast (CannotDelete (Count (referencing backend cid)))])) \<and>
   hd (snd (deleteCategory calc now faults backend state cid)) = DeleteCategoryCall cid \<and>
   (\<not> delete_fails faults \<longrightarrow>
      categories (snd (fst (deleteCategory calc now faults backend state cid)))
        = filter (\<lambda>c. cat_id c \<noteq> cid) (categories state))"
proof -
  have a: "productCounts page cid = Some (Count n) \<and> 0 < n \<longrightarrow>
      handleDeleteCategory faults backend page cid
        = ((backend, page), [Toast (CannotDelete (Count n))])"
    by (simp add: handleDeleteCategory_def readProp_def orZero_def)
  have np: "productCounts page cid = None \<or> productCounts page cid = Some (Count 0) \<Longrightarrow>
      \<not> positive (orZero (readProp (productCounts page) cid))"
    by (auto simp add: readProp_def orZero_def)
  have b: "productCounts page cid = None \<or> productCounts page cid = Some (Count 0) \<Longrightarrow>
      hd (snd (handleDeleteCategory faults backend page cid)) = DeleteCategoryCall cid"
    using np by (simp add: handleDeleteCategory_def Let_def split: prod.splits)
  have c: "productCounts page cid = None \<or> productCounts page cid = Some (Count 0) \<Longrightarrow>
         delete_fails faults \<Longrightarrow>
         handleDeleteCategory faults backend page cid
           = ((backend, page), [DeleteCategoryCall cid, Toast DeleteFailed])"
    using np by (simp add: handleDeleteCategory_def Let_def)
  have d: "productCounts page cid = None \<or> productCounts page cid = Some (Count 0) \<Longrightarrow>
        \<not> delete_fails faults \<Longrightarrow> \<not> select_categories_fails faults \<Longrightarrow>
        \<not> select_products_fails faults \<Longrightarrow>
         page_categories (snd (fst (handleDeleteCategory faults backend page cid)))
           = filter (\<lambda>c. cat_id c \<noteq> cid) (cat_rows backend)"
    using np by (simp add: handleDeleteCategory_def fetchCategories_def Let_def)
  have e: "cid \<notin> set protoMembers \<Longrightarrow> \<not> select_categories_fails faults' \<Longrightarrow>
      \<not> select_products_fails faults' \<Longrightarrow> 0 < referencing backend cid \<Longrightarrow>
      handleDeleteCategory faults backend (fst (fetchCategories faults' backend page0)) cid
        = ((backend, fst (fetchCategories faults' backend page0)),
           [Toast (CannotDelete (Count (referencing backend cid)))])"
    using fetched_counts [of faults' cid backend page0]
    by (simp add: handleDeleteCategory_def readProp_def orZero_def)
  have f: "hd (snd (deleteCategory calc now faults backend state cid)) = DeleteCategoryCall cid"
    by (simp add: deleteCategory_def)
  have g: "\<not> delete_fails faults \<Longrightarrow>
      categories (snd (fst (deleteCategory calc now faults backend state cid)))
        = filter (\<lambda>c. cat_id c \<noteq> cid) (categories state)"
    by (simp add: deleteCategory_def)
  from a b c d e f g show ?thesis by auto
qed

theorem delete_category_guard_witness:
  "productCounts loadedPage ''c1'' = Some (Count 2) \<and>
   ''c1'' \<notin> set protoMembers \<and> referencing sampleBackend ''c1'' = 2 \<and>
   handleDeleteCategory noFaults sampleBackend loadedPage ''c1''
     = ((sampleBackend, loadedPage), [Toast (CannotDelete (Count 2))]) \<and>
   handleDeleteCategory noFaults sampleBackend
       (fst (fetchCategories noFaults sampleBackend emptyPage)) ''c1''
     = ((sampleBackend, fst (fetchCategories noFaults sampleBackend emptyPage)),
        [Toast (CannotDelete (Count (referencing sampleBackend ''c1'')))]) \<and>
   productCounts loadedPage ''c2'' = None \<and>
   hd (snd (handleDeleteCategory noFaults sampleBackend loadedPage ''c2'')) = DeleteCategoryCall ''c2'' \<and>
   page_categories (snd (fst (handleDeleteCategory noFaults sampleBackend loadedPage ''c2'')))
     = [sampleCategory ''c1''] \<and>
   handleDeleteCategory deleteRefused sampleBackend loadedPage ''c2''
     = ((sampleBackend, loadedPage), [DeleteCategoryCall ''c2'', Toast DeleteFailed])"
proof -
  have c1: "productCounts loadedPage ''c1'' = Some (Count 2)"
    by (simp add: loadedPage_def fetchCategories_def noFaults_def sampleBackend_def
          countProduct_def sampleProduct_def writeProp_def readProp_def orZero_def
          protoMembers_def)
  have c2: "productCounts loadedPage ''c2'' = None"
    by (simp add: loadedPage_def fetchCategories_def noFaults_def sampleBackend_def
          countProduct_def sampleProduct_def writeProp_def readProp_def orZero_def
          protoMembers_def)
  have p: "''c1'' \<notin> set protoMembers" by (simp add: protoMembers_def)
  have n: "referencing sampleBackend ''c1'' = 2"
    by (simp add: referencing_def sampleBackend_def sampleProduct_def)
  have f: "\<not> delete_fails noFaults \<and> \<not> select_categories_fails noFaults \<and>
           \<not> select_products_fails noFaults"
    by (simp add: noFaults_def)
  have g: "delete_fails deleteRefused" by (simp add: deleteRefused_def)
  have r: "filter (\<lambda>c. cat_id c \<noteq> ''c2'') (cat_rows sampleBackend) = [sampleCategory ''c1'']"
    by (simp add: sampleBackend_def sampleCategory_def)
  from delete_category_guard
         [where page = loadedPage and cid = "''c1''" and n = 2 and faults = noFaults
            and backend = sampleBackend and faults' = noFaults and page0 = emptyPage] c1
  have a: "handleDeleteCategory noFaults sampleBackend loadedPage ''c1''
             = ((sampleBackend, loadedPage), [Toast (CannotDelete (Count 2))])"
    by simp
  from delete_category_guard
         [where page = loadedPage and cid = "''c1''" and n = 2 and faults = noFaults
            and backend = sampleBackend and faults' = noFaults and page0 = emptyPage] p f n
  have a3: "handleDeleteCategory noFaults sampleBackend
              (fst (fetchCategories noFaults sampleBackend emptyPage)) ''c1''
            = ((sampleBackend, fst (fetchCategories noFaults sampleBackend emptyPage)),
               [Toast (CannotDelete (Count (referencing sampleBackend ''c1'')))])"
    by simp
  from delete_category_guard
         [where page = loadedPage and cid = "''c2''" and n = 2 and faults = noFaults
            and backend = sampleBackend and faults' = noFaults and page0 = emptyPage] c2 f r
  have b: "hd (snd (handleDeleteCategory noFaults sampleBackend loadedPage ''c2'')) = DeleteCategoryCall ''c2'' \<and>
           page_categories (snd (fst (handleDeleteCategory noFaults sampleBackend loadedPage ''c2'')))
             = [sampleCategory ''c1'']"
    by simp
  from delete_category_guard
         [where page = loadedPage and cid = "''c2''" and n = 2 and faults = deleteRefused
            and backend = sampleBackend and faults' = noFaults and page0 = emptyPage] c2 g
  have c: "handleDeleteCategory deleteRefused sampleBackend loadedPage ''c2''
             = ((sampleBackend, loadedPage), [DeleteCategoryCall ''c2'', Toast DeleteFailed])"
    by simp
  from c1 p n a a3 c2 b [THEN conjunct1] b [THEN conjunct2] c show ?thesis by (intro conjI)
qed

text \<open>
  Claim C4 as first stated fails on \<^verbatim>\<open>deleteCategory\<close> of the second store of part_003:
  for a category that two products reference the delete call is issued, whether the store
  then refuses it or not, and when the store accepts it the category leaves the list.
\<close>

theorem deleteCategory_counterexample:
  "referencing sampleBackend ''c1'' = 2 \<and>
   snd (deleteCategory (calculateStats_v1 0) 0 deleteRefused sampleBackend sampleStore ''c1'')
     = [DeleteCategoryCall ''c1'', ConsoleError] \<and>
   snd (deleteCategory (calculateStats_v1 0) 0 noFaults sampleBackend sampleStore ''c1'')
     = [DeleteCategoryCall ''c1''] \<and>
   categories (snd (fst (deleteCategory (calculateStats_v1 0) 0 noFaults sampleBackend sampleStore ''c1'')))
     = [sampleCategory ''c2''] \<and>
   categories sampleStore = [sampleCategory ''c1'', sampleCategory ''c2'']"
  by (simp add: referencing_def deleteCategory_def sampleBackend_def sampleStore_def
        sampleProduct_def sampleCategory_def noFaults_def deleteRefused_def)

end
